theory Spec2Isabelle
  imports Complex_Main "HOL-Library.Word"
begin

unbundle bit_operations_syntax

section \<open>Text: Python strings restricted to the Latin-1 code points\<close>

text \<open>
  A Python \<open>str\<close> is a sequence of Unicode code points. The embedding covers the code
  points U+0000 to U+00FF: a \<^typ>\<open>char\<close> is read as the code point with the same number, so
  \<^const>\<open>length\<close> counts what Python's \<open>len\<close> counts. The tables below are those of
  CPython for this range (\<open>str.lower\<close>, \<open>str.upper\<close>, and the classes \<open>\w\<close>, \<open>\s\<close> and
  \<open>[A-Z]\<close> of the \<open>re\<close> module on \<open>str\<close> patterns).
\<close>

definition cp :: "char \<Rightarrow> nat" where
  "cp c = of_char c"

definition is_AZ :: "char \<Rightarrow> bool" where
  "is_AZ c \<longleftrightarrow> 65 \<le> cp c \<and> cp c \<le> 90"

definition has_lower :: "char \<Rightarrow> bool" where
  "has_lower c \<longleftrightarrow> is_AZ c \<or> (192 \<le> cp c \<and> cp c \<le> 222 \<and> cp c \<noteq> 215)"

definition lower_char :: "char \<Rightarrow> char" where
  "lower_char c = (if has_lower c then char_of (cp c + 32) else c)"

definition str_lower :: "string \<Rightarrow> string" where
  "str_lower text = map lower_char text"

definition has_upper :: "char \<Rightarrow> bool" where
  "has_upper c \<longleftrightarrow> (97 \<le> cp c \<and> cp c \<le> 122) \<or> (224 \<le> cp c \<and> cp c \<le> 254 \<and> cp c \<noteq> 247)"

text \<open>
  \<open>str.upper\<close> on a code point of the range. The result is a list of code points, given
  as numbers, since it leaves the range twice: U+00B5 becomes U+039C and U+00FF becomes
  U+0178. U+00DF becomes the two letters \<open>SS\<close>.
\<close>

definition upper_cp :: "char \<Rightarrow> nat list" where
  "upper_cp c =
     (if cp c = 181 then [924]
      else if cp c = 223 then [83, 83]
      else if cp c = 255 then [376]
      else if has_upper c then [cp c - 32]
      else [cp c])"

definition str_upper :: "string \<Rightarrow> nat list" where
  "str_upper s = concat (map upper_cp s)"

text \<open>
  \<open>str.lower\<close> on the code points that \<open>str_upper\<close> can give: the range itself, where it
  is \<open>lower_char\<close>, and the two code points above it, U+0178 (to U+00FF) and U+039C (to
  U+03BC). Any other code point is outside the tables of this theory (\<open>None\<close>).
\<close>

definition lower_cp :: "nat \<Rightarrow> nat option" where
  "lower_cp n =
     (if n < 256 then Some (cp (lower_char (char_of n)))
      else if n = 376 then Some 255
      else if n = 924 then Some 956
      else None)"

fun lower_cps :: "nat list \<Rightarrow> nat list option" where
  "lower_cps [] = Some []"
| "lower_cps (n # ns) =
     (case lower_cp n of
        None \<Rightarrow> None
      | Some l \<Rightarrow> (case lower_cps ns of None \<Rightarrow> None | Some ls \<Rightarrow> Some (l # ls)))"

text \<open>A text given by code points as a \<^typ>\<open>string\<close>, when all of them are in the range.\<close>

definition narrow :: "nat list \<Rightarrow> string option" where
  "narrow ns = (if list_all (\<lambda>n. n < 256) ns then Some (map char_of ns) else None)"

definition is_word :: "char \<Rightarrow> bool" where
  "is_word c \<longleftrightarrow>
     (48 \<le> cp c \<and> cp c \<le> 57) \<or> (65 \<le> cp c \<and> cp c \<le> 90) \<or> cp c = 95 \<or>
     (97 \<le> cp c \<and> cp c \<le> 122) \<or>
     cp c \<in> {170, 178, 179, 181, 185, 186, 188, 189, 190} \<or>
     (192 \<le> cp c \<and> cp c \<noteq> 215 \<and> cp c \<noteq> 247)"

definition is_space :: "char \<Rightarrow> bool" where
  "is_space c \<longleftrightarrow>
     (9 \<le> cp c \<and> cp c \<le> 13) \<or> (28 \<le> cp c \<and> cp c \<le> 32) \<or> cp c = 133 \<or> cp c = 160"

section \<open>BM25Tokenizer\<close>

record bm25_tokenizer =
  tk_k1 :: real
  tk_b :: real

definition default_tokenizer :: bm25_tokenizer where
  "default_tokenizer = \<lparr>tk_k1 = 3 / 2, tk_b = 3 / 4\<rparr>"

definition stop_words :: "string list" where
  "stop_words =
     [''the'', ''a'', ''an'', ''and'', ''or'', ''but'', ''in'', ''on'', ''at'', ''to'',
      ''for'', ''of'', ''with'', ''by'', ''from'', ''as'', ''is'', ''was'', ''be'',
      ''this'', ''that'', ''it'', ''they'', ''we'', ''you'', ''i'', ''my'', ''your'']"

definition boost_tokens :: "(string \<times> real) list" where
  "boost_tokens =
     [(''network'', 2), (''rpc'', 2), (''serverrpc'', 5 / 2), (''clientrpc'', 5 / 2),
      (''networkvariable'', 2), (''networkobject'', 2), (''networkbehaviour'', 2),
      (''gamecreator'', 2), (''instruction'', 3 / 2), (''condition'', 3 / 2),
      (''trigger'', 3 / 2), (''character'', 3 / 2), (''inventory'', 3 / 2),
      (''spawn'', 3 / 2), (''despawn'', 3 / 2), (''owner'', 3 / 2)]"

text \<open>
  \<open>camel_case_pattern.sub(' ', text)\<close> with the pattern \<open>(?<!^)(?=[A-Z])\<close>: an empty match
  at every position that is followed by a letter of \<open>[A-Z]\<close> and is not the start of the
  string; each is replaced by one space.
\<close>

fun camel_case_tail :: "string \<Rightarrow> string" where
  "camel_case_tail [] = []"
| "camel_case_tail (c # cs) =
     (if is_AZ c then CHR '' '' # c # camel_case_tail cs else c # camel_case_tail cs)"

definition camel_case_sub :: "string \<Rightarrow> string" where
  "camel_case_sub text = (case text of [] \<Rightarrow> [] | c # cs \<Rightarrow> c # camel_case_tail cs)"

text \<open>\<open>re.sub(r'[^\w\s_]', ' ', text)\<close>\<close>

definition special_chars_sub :: "string \<Rightarrow> string" where
  "special_chars_sub text =
     map (\<lambda>c. if is_word c \<or> is_space c \<or> c = CHR ''_'' then c else CHR '' '') text"

text \<open>
  \<open>re.split(r'[\s_]+', text)\<close>: the pieces between the maximal runs of separators; a
  separator at the start or the end of the text leaves an empty piece there.
\<close>

definition is_sep :: "char \<Rightarrow> bool" where
  "is_sep c \<longleftrightarrow> is_space c \<or> c = CHR ''_''"

function re_split :: "string \<Rightarrow> string list" where
  "re_split [] = [[]]"
| "re_split (c # cs) =
     (if is_sep c then [] # re_split (dropWhile is_sep cs)
      else (case re_split cs of [] \<Rightarrow> [[c]] | p # ps \<Rightarrow> (c # p) # ps))"
  by pat_completeness auto
termination
  by (relation "measure length") (auto simp: less_Suc_eq_le length_dropWhile_le)

definition tokenize :: "string \<Rightarrow> string list" where
  "tokenize text =
     (let text = str_lower text;
          text = camel_case_sub text;
          text = special_chars_sub text;
          tokens = re_split text
      in filter (\<lambda>t. length t \<ge> 2 \<and> t \<notin> set stop_words) tokens)"

text \<open>
  The same function on a text given by code points, as needed for an upper-cased text:
  \<open>text.lower()\<close> first, then the steps of \<open>tokenize\<close> after the first, which need the
  lower-cased text in the range (\<open>None\<close> otherwise).
\<close>

definition tokenize_lowered :: "string \<Rightarrow> string list" where
  "tokenize_lowered text =
     (let text = camel_case_sub text;
          text = special_chars_sub text;
          tokens = re_split text
      in filter (\<lambda>t. length t \<ge> 2 \<and> t \<notin> set stop_words) tokens)"

definition tokenize_cps :: "nat list \<Rightarrow> string list option" where
  "tokenize_cps text =
     (case lower_cps text of
        None \<Rightarrow> None
      | Some l \<Rightarrow> (case narrow l of None \<Rightarrow> None | Some t \<Rightarrow> Some (tokenize_lowered t)))"

section \<open>MD5 (RFC 1321), as \<open>hashlib.md5\<close> computes it\<close>

type_synonym byte = "8 word"

definition md5_K :: "32 word list" where
  "md5_K =
    [0xd76aa478, 0xe8c7b756, 0x242070db, 0xc1bdceee, 0xf57c0faf, 0x4787c62a, 0xa8304613, 0xfd469501,
     0x698098d8, 0x8b44f7af, 0xffff5bb1, 0x895cd7be, 0x6b901122, 0xfd987193, 0xa679438e, 0x49b40821,
     0xf61e2562, 0xc040b340, 0x265e5a51, 0xe9b6c7aa, 0xd62f105d, 0x02441453, 0xd8a1e681, 0xe7d3fbc8,
     0x21e1cde6, 0xc33707d6, 0xf4d50d87, 0x455a14ed, 0xa9e3e905, 0xfcefa3f8, 0x676f02d9, 0x8d2a4c8a,
     0xfffa3942, 0x8771f681, 0x6d9d6122, 0xfde5380c, 0xa4beea44, 0x4bdecfa9, 0xf6bb4b60, 0xbebfbc70,
     0x289b7ec6, 0xeaa127fa, 0xd4ef3085, 0x04881d05, 0xd9d4d039, 0xe6db99e5, 0x1fa27cf8, 0xc4ac5665,
     0xf4292244, 0x432aff97, 0xab9423a7, 0xfc93a039, 0x655b59c3, 0x8f0ccc92, 0xffeff47d, 0x85845dd1,
     0x6fa87e4f, 0xfe2ce6e0, 0xa3014314, 0x4e0811a1, 0xf7537e82, 0xbd3af235, 0x2ad7d2bb, 0xeb86d391]"

definition md5_s :: "nat list" where
  "md5_s =
    [7, 12, 17, 22, 7, 12, 17, 22, 7, 12, 17, 22, 7, 12, 17, 22,
     5, 9, 14, 20, 5, 9, 14, 20, 5, 9, 14, 20, 5, 9, 14, 20,
     4, 11, 16, 23, 4, 11, 16, 23, 4, 11, 16, 23, 4, 11, 16, 23,
     6, 10, 15, 21, 6, 10, 15, 21, 6, 10, 15, 21, 6, 10, 15, 21]"

definition rotl32 :: "32 word \<Rightarrow> nat \<Rightarrow> 32 word" where
  "rotl32 x n = push_bit n x OR drop_bit (32 - n) x"

type_synonym md5_state = "32 word \<times> 32 word \<times> 32 word \<times> 32 word"

definition md5_round :: "32 word list \<Rightarrow> md5_state \<Rightarrow> nat \<Rightarrow> md5_state" where
  "md5_round M st i = (case st of (A, B, C, D) \<Rightarrow>
     let (F, g) =
       (if i < 16 then ((B AND C) OR (NOT B AND D), i)
        else if i < 32 then ((D AND B) OR (NOT D AND C), (5 * i + 1) mod 16)
        else if i < 48 then (B XOR C XOR D, (3 * i + 5) mod 16)
        else (C XOR (B OR NOT D), (7 * i) mod 16));
       F' = F + A + md5_K ! i + M ! g
     in (D, B + rotl32 F' (md5_s ! i), B, C))"

fun chunk_words :: "byte list \<Rightarrow> 32 word list" where
  "chunk_words (a # b # c # d # rest) =
     (ucast a OR push_bit 8 (ucast b) OR push_bit 16 (ucast c) OR push_bit 24 (ucast d))
       # chunk_words rest"
| "chunk_words _ = []"

definition md5_chunk :: "md5_state \<Rightarrow> byte list \<Rightarrow> md5_state" where
  "md5_chunk st blk = (case st of (a0, b0, c0, d0) \<Rightarrow>
     case foldl (md5_round (chunk_words blk)) st [0..<64] of (A, B, C, D) \<Rightarrow>
       (a0 + A, b0 + B, c0 + C, d0 + D))"

definition le_bytes32 :: "32 word \<Rightarrow> byte list" where
  "le_bytes32 w = [ucast w, ucast (drop_bit 8 w), ucast (drop_bit 16 w), ucast (drop_bit 24 w)]"

definition le_bytes64 :: "64 word \<Rightarrow> byte list" where
  "le_bytes64 w = map (\<lambda>k. ucast (drop_bit (8 * k) w)) [0..<8]"

definition md5_pad :: "byte list \<Rightarrow> byte list" where
  "md5_pad msg = msg @ [0x80] @ replicate ((119 - length msg mod 64) mod 64) 0
                 @ le_bytes64 (of_nat (8 * length msg))"

fun blocks64 :: "nat \<Rightarrow> byte list \<Rightarrow> byte list list" where
  "blocks64 0 bs = []"
| "blocks64 (Suc n) bs = take 64 bs # blocks64 n (drop 64 bs)"

definition md5_init :: md5_state where
  "md5_init = (0x67452301, 0xefcdab89, 0x98badcfe, 0x10325476)"

definition md5_digest :: "byte list \<Rightarrow> byte list" where
  "md5_digest msg = (let p = md5_pad msg in
     case foldl md5_chunk md5_init (blocks64 (length p div 64) p) of
       (a, b, c, d) \<Rightarrow> concat (map le_bytes32 [a, b, c, d]))"

text \<open>\<open>hexdigest()\<close>: two lower-case hexadecimal digits per byte.\<close>

definition hex_digit :: "nat \<Rightarrow> char" where
  "hex_digit n = ''0123456789abcdef'' ! (n mod 16)"

definition hexdigest :: "byte list \<Rightarrow> string" where
  "hexdigest bs = concat (map (\<lambda>x. [hex_digit (unat x div 16), hex_digit (unat x mod 16)]) bs)"

text \<open>
  \<open>int(s, 16)\<close> on a string of digits \<open>0-9a-f\<close>. Python raises \<open>ValueError\<close> on other
  input; \<^const>\<open>hexdigest\<close> yields none (lemma \<open>hexdigest_digits\<close> below), so the
  function is only used where it is defined and gives 0 to any other character.
\<close>

definition hex_val :: "char \<Rightarrow> int" where
  "hex_val c =
     (if 48 \<le> cp c \<and> cp c \<le> 57 then int (cp c) - 48
      else if 97 \<le> cp c \<and> cp c \<le> 102 then int (cp c) - 87
      else 0)"

definition int_base16 :: "string \<Rightarrow> int" where
  "int_base16 s = foldl (\<lambda>a c. 16 * a + hex_val c) 0 s"

text \<open>\<open>str.encode()\<close>: UTF-8, one byte below U+0080 and two bytes from there to U+00FF.\<close>

definition utf8_char :: "char \<Rightarrow> byte list" where
  "utf8_char c =
     (if cp c < 128 then [of_nat (cp c)]
      else [of_nat (192 + cp c div 64), of_nat (128 + cp c mod 64)])"

definition encode :: "string \<Rightarrow> byte list" where
  "encode s = concat (map utf8_char s)"

definition token_hash :: "string \<Rightarrow> int" where
  "token_hash token = int_base16 (take 8 (hexdigest (md5_digest (encode token))))"

section \<open>to_sparse_vector\<close>

text \<open>
  The \<open>defaultdict(int)\<close> of term frequencies keeps its keys in insertion order, so it is
  an association list that grows at the end.
\<close>

definition tf_incr :: "(string \<times> nat) list \<Rightarrow> string \<Rightarrow> (string \<times> nat) list" where
  "tf_incr tf token =
     (if token \<in> fst ` set tf
      then map (\<lambda>(t, n). if t = token then (t, n + 1) else (t, n)) tf
      else tf @ [(token, 1)])"

definition boost_of :: "string \<Rightarrow> real" where
  "boost_of token = (case map_of boost_tokens token of None \<Rightarrow> 1 | Some x \<Rightarrow> x)"

definition term_weight :: "bm25_tokenizer \<Rightarrow> string \<Rightarrow> nat \<Rightarrow> real" where
  "term_weight tk token count = (of_nat count * boost_of token) / (of_nat count + tk_k1 tk)"

definition to_sparse_vector :: "bm25_tokenizer \<Rightarrow> string \<Rightarrow> int list \<times> real list" where
  "to_sparse_vector tk text =
     (let tokens = tokenize text;
          tf = foldl tf_incr [] tokens
      in (map (\<lambda>(token, count). token_hash token) tf,
          map (\<lambda>(token, count). term_weight tk token count) tf))"

text \<open>\<open>to_sparse_vector\<close> on a text given by code points: the same steps after \<open>tokenize\<close>.\<close>

definition vector_of_tokens :: "bm25_tokenizer \<Rightarrow> string list \<Rightarrow> int list \<times> real list" where
  "vector_of_tokens tk tokens =
     (let tf = foldl tf_incr [] tokens
      in (map (\<lambda>(token, count). token_hash token) tf,
          map (\<lambda>(token, count). term_weight tk token count) tf))"

definition to_sparse_vector_cps ::
  "bm25_tokenizer \<Rightarrow> nat list \<Rightarrow> (int list \<times> real list) option" where
  "to_sparse_vector_cps tk text =
     (case tokenize_cps text of None \<Rightarrow> None | Some tokens \<Rightarrow> Some (vector_of_tokens tk tokens))"

section \<open>Python values\<close>

datatype pyval =
    PNone
  | PBool bool
  | PInt int
  | PFloat real
  | PStr string
  | PList "pyval list"
  | PDict "(string \<times> pyval) list"

type_synonym pydict = "(string \<times> pyval) list"

datatype error = TypeError | AttributeError | KeyError | ValidationError | ClientError string

text \<open>\<open>d.get(k, default)\<close> on a dict.\<close>

definition dict_get :: "pydict \<Rightarrow> string \<Rightarrow> pyval \<Rightarrow> pyval" where
  "dict_get d k dflt = (case map_of d k of None \<Rightarrow> dflt | Some v \<Rightarrow> v)"

text \<open>\<open>p in s\<close> on two strings: \<open>p\<close> occurs in \<open>s\<close> as a contiguous piece.\<close>

fun str_contains :: "string \<Rightarrow> string \<Rightarrow> bool" where
  "str_contains p [] \<longleftrightarrow> p = []"
| "str_contains p (c # cs) \<longleftrightarrow> take (length p) (c # cs) = p \<or> str_contains p cs"

text \<open>
  \<open>k in v\<close> for a string \<open>k\<close>: key membership in a dict, element membership in a list,
  substring test in a string; \<open>TypeError\<close> on a value that is not a container.
\<close>

fun py_in :: "string \<Rightarrow> pyval \<Rightarrow> error + bool" where
  "py_in k (PDict d) = Inr (k \<in> fst ` set d)"
| "py_in k (PList xs) = Inr (PStr k \<in> set xs)"
| "py_in k (PStr s) = Inr (str_contains k s)"
| "py_in k _ = Inl TypeError"

text \<open>\<open>v[k]\<close> for a string \<open>k\<close>: defined on a dict only.\<close>

fun py_getitem :: "pyval \<Rightarrow> string \<Rightarrow> error + pyval" where
  "py_getitem (PDict d) k = (case map_of d k of None \<Rightarrow> Inl KeyError | Some v \<Rightarrow> Inr v)"
| "py_getitem _ k = Inl TypeError"

text \<open>\<open>for x in v\<close>: the elements of a list, the characters of a string, the keys of a dict.\<close>

fun py_iter :: "pyval \<Rightarrow> error + pyval list" where
  "py_iter (PList xs) = Inr xs"
| "py_iter (PStr s) = Inr (map (\<lambda>c. PStr [c]) s)"
| "py_iter (PDict d) = Inr (map (\<lambda>(k, v). PStr k) d)"
| "py_iter _ = Inl TypeError"

section \<open>Filter builder\<close>

text \<open>
  The conditions are models of the client library (\<open>qdrant_client.models\<close>, pydantic
  models), which check their fields when they are built and raise \<open>ValidationError\<close>:
  \<^item> \<open>FieldCondition(key, match)\<close>: \<open>key\<close> is a \<open>str\<close>;
  \<^item> \<open>MatchValue(value)\<close>: \<open>value\<close> is a \<open>bool\<close>, an \<open>int\<close> or a \<open>str\<close>;
  \<^item> \<open>MatchAny(any)\<close>: \<open>any\<close> is a list of \<open>str\<close> or a list of \<open>int\<close>;
  \<^item> \<open>MatchText(text)\<close>: \<open>text\<close> is a \<open>str\<close>.
  A constructor of the datatypes below is a model that has passed its check; the functions
  \<open>_init\<close> are the calls that build one.
\<close>

datatype match = MatchValue pyval | MatchAny pyval | MatchText pyval

datatype field_condition = FieldCondition pyval match

record qfilter =
  must :: "field_condition list option"
  should :: "field_condition list option"
  must_not :: "field_condition list option"

fun is_PStr :: "pyval \<Rightarrow> bool" where
  "is_PStr (PStr s) = True"
| "is_PStr _ = False"

fun is_PInt :: "pyval \<Rightarrow> bool" where
  "is_PInt (PInt i) = True"
| "is_PInt _ = False"

fun MatchValue_init :: "pyval \<Rightarrow> error + match" where
  "MatchValue_init (PBool x) = Inr (MatchValue (PBool x))"
| "MatchValue_init (PInt i) = Inr (MatchValue (PInt i))"
| "MatchValue_init (PStr s) = Inr (MatchValue (PStr s))"
| "MatchValue_init _ = Inl ValidationError"

fun MatchAny_init :: "pyval \<Rightarrow> error + match" where
  "MatchAny_init (PList xs) =
     (if list_all is_PStr xs \<or> list_all is_PInt xs then Inr (MatchAny (PList xs))
      else Inl ValidationError)"
| "MatchAny_init _ = Inl ValidationError"

fun MatchText_init :: "pyval \<Rightarrow> error + match" where
  "MatchText_init (PStr s) = Inr (MatchText (PStr s))"
| "MatchText_init _ = Inl ValidationError"

fun FieldCondition_init :: "pyval \<Rightarrow> match \<Rightarrow> error + field_condition" where
  "FieldCondition_init (PStr k) m = Inr (FieldCondition (PStr k) m)"
| "FieldCondition_init _ m = Inl ValidationError"

text \<open>
  \<open>FieldCondition(key=key, match=M(...=match[k]))\<close>: the item is read, the match model is
  built, then the condition.
\<close>

definition match_of ::
  "pyval \<Rightarrow> string \<Rightarrow> (pyval \<Rightarrow> error + match) \<Rightarrow> pyval \<Rightarrow> error + field_condition" where
  "match_of m k init key =
     (case py_getitem m k of
        Inl e \<Rightarrow> Inl e
      | Inr v \<Rightarrow> (case init v of Inl e \<Rightarrow> Inl e | Inr mt \<Rightarrow> FieldCondition_init key mt))"

fun build_condition :: "pyval \<Rightarrow> error + field_condition" where
  "build_condition (PDict condition) =
     (let key = dict_get condition ''key'' PNone;
          m = dict_get condition ''match'' (PDict [])
      in case py_in ''value'' m of
           Inl e \<Rightarrow> Inl e
         | Inr True \<Rightarrow> match_of m ''value'' MatchValue_init key
         | Inr False \<Rightarrow>
             (case py_in ''any'' m of
                Inl e \<Rightarrow> Inl e
              | Inr True \<Rightarrow> match_of m ''any'' MatchAny_init key
              | Inr False \<Rightarrow>
                  (case py_in ''text'' m of
                     Inl e \<Rightarrow> Inl e
                   | Inr True \<Rightarrow> match_of m ''text'' MatchText_init key
                   | Inr False \<Rightarrow>
                       (case MatchValue_init (PBool True) of
                          Inl e \<Rightarrow> Inl e
                        | Inr mt \<Rightarrow> FieldCondition_init key mt))))"
| "build_condition _ = Inl AttributeError"

text \<open>The loop \<open>for condition in value: acc.append(self._build_condition(condition))\<close>.\<close>

fun append_conditions ::
  "field_condition list \<Rightarrow> pyval list \<Rightarrow> error + field_condition list" where
  "append_conditions acc [] = Inr acc"
| "append_conditions acc (c # cs) =
     (case build_condition c of
        Inl e \<Rightarrow> Inl e
      | Inr fc \<Rightarrow> append_conditions (acc @ [fc]) cs)"

definition extend_conditions ::
  "field_condition list \<Rightarrow> pyval \<Rightarrow> error + field_condition list" where
  "extend_conditions acc v =
     (case py_iter v of Inl e \<Rightarrow> Inl e | Inr cs \<Rightarrow> append_conditions acc cs)"

type_synonym clause_lists = "field_condition list \<times> field_condition list \<times> field_condition list"

fun build_filter_items :: "clause_lists \<Rightarrow> pydict \<Rightarrow> error + clause_lists" where
  "build_filter_items acc [] = Inr acc"
| "build_filter_items (ms, ss, ns) ((k, v) # items) =
     (if k = ''must'' then
        (case extend_conditions ms v of
           Inl e \<Rightarrow> Inl e | Inr ms' \<Rightarrow> build_filter_items (ms', ss, ns) items)
      else if k = ''should'' then
        (case extend_conditions ss v of
           Inl e \<Rightarrow> Inl e | Inr ss' \<Rightarrow> build_filter_items (ms, ss', ns) items)
      else if k = ''must_not'' then
        (case extend_conditions ns v of
           Inl e \<Rightarrow> Inl e | Inr ns' \<Rightarrow> build_filter_items (ms, ss, ns') items)
      else
        (case MatchValue_init v of
           Inl e \<Rightarrow> Inl e
         | Inr mt \<Rightarrow>
             (case FieldCondition_init (PStr k) mt of
                Inl e \<Rightarrow> Inl e
              | Inr fc \<Rightarrow> build_filter_items (ms @ [fc], ss, ns) items)))"

definition none_if_empty :: "'a list \<Rightarrow> 'a list option" where
  "none_if_empty xs = (if xs = [] then None else Some xs)"

definition build_filter :: "pydict \<Rightarrow> error + qfilter" where
  "build_filter filter_dict =
     (case build_filter_items ([], [], []) filter_dict of
        Inl e \<Rightarrow> Inl e
      | Inr (ms, ss, ns) \<Rightarrow>
          Inr \<lparr>must = none_if_empty ms, should = none_if_empty ss,
               must_not = none_if_empty ns\<rparr>)"

section \<open>Search presets (qdrant_config.py)\<close>

record preset_config =
  pc_dense_weight :: "real option"
  pc_sparse_weight :: "real option"
  pc_filter :: "pydict option"
  pc_prefetch_limit :: "int option"
  pc_final_limit :: "int option"

definition code_search :: preset_config where
  "code_search =
     \<lparr>pc_dense_weight = Some (6 / 10), pc_sparse_weight = Some (4 / 10),
      pc_filter = Some [(''content_type'', PStr ''code'')],
      pc_prefetch_limit = Some 50, pc_final_limit = Some 20\<rparr>"

definition semantic_search :: preset_config where
  "semantic_search =
     \<lparr>pc_dense_weight = Some (85 / 100), pc_sparse_weight = Some (15 / 100),
      pc_filter = None,
      pc_prefetch_limit = Some 100, pc_final_limit = Some 20\<rparr>"

definition keyword_search :: preset_config where
  "keyword_search =
     \<lparr>pc_dense_weight = Some (3 / 10), pc_sparse_weight = Some (7 / 10),
      pc_filter = None,
      pc_prefetch_limit = Some 100, pc_final_limit = Some 30\<rparr>"

definition network_code_search :: preset_config where
  "network_code_search =
     \<lparr>pc_dense_weight = Some (5 / 10), pc_sparse_weight = Some (5 / 10),
      pc_filter = Some [(''must'', PList
        [PDict [(''key'', PStr ''content_type''), (''match'', PDict [(''value'', PStr ''code'')])],
         PDict [(''key'', PStr ''is_network''), (''match'', PDict [(''value'', PBool True)])]])],
      pc_prefetch_limit = Some 50, pc_final_limit = Some 20\<rparr>"

definition gamecreator_search :: preset_config where
  "gamecreator_search =
     \<lparr>pc_dense_weight = Some (6 / 10), pc_sparse_weight = Some (4 / 10),
      pc_filter = Some [(''should'', PList
        [PDict [(''key'', PStr ''assembly_category''),
                (''match'', PDict [(''value'', PStr ''gamecreator_core'')])],
         PDict [(''key'', PStr ''assembly_category''),
                (''match'', PDict [(''value'', PStr ''gamecreator_module'')])],
         PDict [(''key'', PStr ''keywords''),
                (''match'', PDict [(''any'', PList
                   [PStr ''gamecreator'', PStr ''instruction'', PStr ''condition''])])]])],
      pc_prefetch_limit = Some 50, pc_final_limit = Some 20\<rparr>"

definition documentation_search :: preset_config where
  "documentation_search =
     \<lparr>pc_dense_weight = Some (75 / 100), pc_sparse_weight = Some (25 / 100),
      pc_filter = Some [(''content_type'', PStr ''doc'')],
      pc_prefetch_limit = Some 50, pc_final_limit = Some 15\<rparr>"

text \<open>The empty dict that \<open>presets.get(preset, {})\<close> gives for an unknown name.\<close>

definition empty_preset :: preset_config where
  "empty_preset =
     \<lparr>pc_dense_weight = None, pc_sparse_weight = None, pc_filter = None,
      pc_prefetch_limit = None, pc_final_limit = None\<rparr>"

definition get_preset_config :: "string \<Rightarrow> preset_config" where
  "get_preset_config preset =
     (case map_of
        [(''code'', code_search), (''semantic'', semantic_search),
         (''keyword'', keyword_search), (''network'', network_code_search),
         (''gamecreator'', gamecreator_search), (''docs'', documentation_search)] preset of
        None \<Rightarrow> empty_preset
      | Some pc \<Rightarrow> pc)"

definition DEFAULT_DENSE_WEIGHT :: real where
  "DEFAULT_DENSE_WEIGHT = 7 / 10"

definition DEFAULT_SPARSE_WEIGHT :: real where
  "DEFAULT_SPARSE_WEIGHT = 3 / 10"

record hybrid_search_config =
  fusion_method :: string
  rrf_k :: int
  normalize_scores :: bool
  dense_prefetch_limit :: int
  sparse_prefetch_limit :: int
  final_limit :: int
  cfg_dense_weight :: real
  cfg_sparse_weight :: real
  hnsw_ef :: int
  timeout_seconds :: int

definition HybridSearchConfig :: hybrid_search_config where
  "HybridSearchConfig =
     \<lparr>fusion_method = ''rrf'', rrf_k = 60, normalize_scores = True,
      dense_prefetch_limit = 100, sparse_prefetch_limit = 100, final_limit = 20,
      cfg_dense_weight = DEFAULT_DENSE_WEIGHT, cfg_sparse_weight = DEFAULT_SPARSE_WEIGHT,
      hnsw_ef = 128, timeout_seconds = 30\<rparr>"

section \<open>The vector index, as the engine sees it\<close>

text \<open>
  The index and the embedding function are outside the program. Each is a function of the
  request that either answers or raises (\<open>Inl\<close>); the engine's functions return the list of
  the requests they have sent, in order, together with their outcome.
\<close>

datatype point_id = IdInt int | IdStr string

record scored_point =
  sp_id :: point_id
  sp_score :: real
  sp_payload :: "pydict option"

record point_record =
  rec_id :: point_id
  rec_payload :: "pydict option"

datatype vector_query = DenseQuery "real list" | SparseVector "int list" "real list"

record prefetch =
  pf_query :: vector_query
  pf_using :: string
  pf_limit :: int
  pf_filter :: "qfilter option"

datatype fusion = RRF | DBSF

datatype named_query =
    NamedVector string "real list"
  | NamedSparseVector string "int list" "real list"

datatype call =
    EmbedCall string
  | QueryPointsCall "prefetch list" fusion int bool
  | SearchCall named_query "qfilter option" int bool
  | ScrollCall "qfilter option" int bool

record client =
  query_points :: "prefetch list \<Rightarrow> fusion \<Rightarrow> int \<Rightarrow> bool \<Rightarrow> error + scored_point list"
  client_search ::
    "named_query \<Rightarrow> qfilter option \<Rightarrow> int \<Rightarrow> bool \<Rightarrow> error + scored_point list"
  scroll :: "qfilter option \<Rightarrow> int \<Rightarrow> bool \<Rightarrow> error + point_record list"

record engine =
  eng_client :: client
  embedding_fn :: "(string \<Rightarrow> error + real list) option"
  tokenizer :: bm25_tokenizer
  config :: hybrid_search_config

section \<open>Results\<close>

record search_result =
  sr_id :: string
  sr_score :: real
  sr_payload :: pydict
  sr_vector_name :: string

record config_used =
  cu_dense_weight :: real
  cu_sparse_weight :: real
  cu_preset :: "string option"
  cu_limit :: int

record hybrid_search_response =
  results :: "search_result list"
  total_found :: nat
  query :: string
  search_time_ms :: real
  config_used :: config_used

text \<open>\<open>str(point.id)\<close>: a string id is itself, an integer id is written in decimal.\<close>

fun str_nat :: "nat \<Rightarrow> string" where
  "str_nat n =
     (if n < 10 then [''0123456789'' ! n]
      else str_nat (n div 10) @ [''0123456789'' ! (n mod 10)])"

definition str_int :: "int \<Rightarrow> string" where
  "str_int i = (if i < 0 then CHR ''-'' # str_nat (nat (- i)) else str_nat (nat i))"

fun str_id :: "point_id \<Rightarrow> string" where
  "str_id (IdInt i) = str_int i"
| "str_id (IdStr s) = s"

text \<open>\<open>point.payload or {}\<close>\<close>

definition payload_or_empty :: "pydict option \<Rightarrow> pydict" where
  "payload_or_empty p = (case p of None \<Rightarrow> [] | Some d \<Rightarrow> d)"

definition result_of_point :: "scored_point \<Rightarrow> search_result" where
  "result_of_point point =
     \<lparr>sr_id = str_id (sp_id point), sr_score = sp_score point,
      sr_payload = payload_or_empty (sp_payload point), sr_vector_name = []\<rparr>"

definition result_of_record :: "point_record \<Rightarrow> search_result" where
  "result_of_record point =
     \<lparr>sr_id = str_id (rec_id point), sr_score = 1,
      sr_payload = payload_or_empty (rec_payload point), sr_vector_name = []\<rparr>"

section \<open>HybridSearchEngine\<close>

text \<open>Truth value of an optional list: \<open>None\<close> and the empty list are false.\<close>

definition truthy :: "'a list option \<Rightarrow> bool" where
  "truthy v = (case v of None \<Rightarrow> False | Some xs \<Rightarrow> xs \<noteq> [])"

definition fallback_scroll_search ::
  "engine \<Rightarrow> qfilter option \<Rightarrow> int \<Rightarrow> bool \<Rightarrow> call list \<times> (error + search_result list)" where
  "fallback_scroll_search eng flt limit with_payload =
     ([ScrollCall flt limit with_payload],
      case scroll (eng_client eng) flt limit with_payload of
        Inl e \<Rightarrow> Inl e
      | Inr recs \<Rightarrow> Inr (map result_of_record recs))"

definition fallback_single_search ::
  "engine \<Rightarrow> real list option \<Rightarrow> int list \<Rightarrow> real list \<Rightarrow> qfilter option \<Rightarrow> int \<Rightarrow> bool
     \<Rightarrow> call list \<times> (error + search_result list)" where
  "fallback_single_search eng dense_vector sparse_indices sparse_values flt limit with_payload =
     (if truthy dense_vector then
        (let q = NamedVector ''dense'' (the dense_vector) in
           ([SearchCall q flt limit with_payload],
            case client_search (eng_client eng) q flt limit with_payload of
              Inl e \<Rightarrow> Inl e
            | Inr points \<Rightarrow> Inr (map result_of_point points)))
      else if sparse_indices \<noteq> [] then
        (let q = NamedSparseVector ''sparse'' sparse_indices sparse_values in
           ([SearchCall q flt limit with_payload],
            case client_search (eng_client eng) q flt limit with_payload of
              Inl e \<Rightarrow> Inl e
            | Inr points \<Rightarrow> Inr (map result_of_point points)))
      else ([], Inr []))"

definition prefetch_queries ::
  "engine \<Rightarrow> real list option \<Rightarrow> int list \<Rightarrow> real list \<Rightarrow> qfilter option \<Rightarrow> prefetch list" where
  "prefetch_queries eng dense_vector sparse_indices sparse_values flt =
     (if truthy dense_vector
      then [\<lparr>pf_query = DenseQuery (the dense_vector), pf_using = ''dense'',
             pf_limit = dense_prefetch_limit (config eng), pf_filter = flt\<rparr>]
      else []) @
     (if sparse_indices \<noteq> []
      then [\<lparr>pf_query = SparseVector sparse_indices sparse_values, pf_using = ''sparse'',
             pf_limit = sparse_prefetch_limit (config eng), pf_filter = flt\<rparr>]
      else [])"

text \<open>
  \<open>_hybrid_search_with_fusion\<close>. The \<open>try\<close> block is the fused request; on any exception
  the single search takes over. The warning printed there is not part of the model, and
  the two weights are passed in and not used, as in the source.
\<close>

definition hybrid_search_with_fusion ::
  "engine \<Rightarrow> real list option \<Rightarrow> int list \<Rightarrow> real list \<Rightarrow> real \<Rightarrow> real \<Rightarrow> qfilter option
     \<Rightarrow> int \<Rightarrow> bool \<Rightarrow> call list \<times> (error + search_result list)" where
  "hybrid_search_with_fusion eng dense_vector sparse_indices sparse_values dense_weight
       sparse_weight flt limit with_payload =
     (let pq = prefetch_queries eng dense_vector sparse_indices sparse_values flt in
        if pq = [] then fallback_scroll_search eng flt limit with_payload
        else
          (case query_points (eng_client eng) pq RRF limit with_payload of
             Inr points \<Rightarrow>
               ([QueryPointsCall pq RRF limit with_payload], Inr (map result_of_point points))
           | Inl e \<Rightarrow>
               (case fallback_single_search eng dense_vector sparse_indices sparse_values
                       flt limit with_payload of
                  (calls, r) \<Rightarrow> (QueryPointsCall pq RRF limit with_payload # calls, r))))"

text \<open>Lines 199 to 206 of \<open>search\<close>: the preset is applied to the caller's parameters.\<close>

definition nonempty_str :: "string option \<Rightarrow> bool" where
  "nonempty_str s = (case s of None \<Rightarrow> False | Some x \<Rightarrow> x \<noteq> [])"

definition apply_preset ::
  "string option \<Rightarrow> pydict option \<Rightarrow> int \<Rightarrow> real \<Rightarrow> real
     \<Rightarrow> real \<times> real \<times> pydict option \<times> int" where
  "apply_preset preset filter_dict limit dense_weight sparse_weight =
     (if nonempty_str preset then
        (let preset_config = get_preset_config (the preset);
             dense_weight = (case pc_dense_weight preset_config of
                               Some w \<Rightarrow> w | None \<Rightarrow> dense_weight);
             sparse_weight = (case pc_sparse_weight preset_config of
                                Some w \<Rightarrow> w | None \<Rightarrow> sparse_weight);
             filter_dict = (if pc_filter preset_config \<noteq> None \<and> \<not> truthy filter_dict
                            then pc_filter preset_config else filter_dict);
             limit = (case pc_final_limit preset_config of Some l \<Rightarrow> l | None \<Rightarrow> limit)
         in (dense_weight, sparse_weight, filter_dict, limit))
      else (dense_weight, sparse_weight, filter_dict, limit))"

text \<open>Lines 208 to 210: the embedding function is called when no dense vector is given.\<close>

definition dense_step ::
  "engine \<Rightarrow> string \<Rightarrow> real list option \<Rightarrow> call list \<times> (error + real list option)" where
  "dense_step eng qtext dense_vector =
     (if dense_vector = None \<and> embedding_fn eng \<noteq> None
      then ([EmbedCall qtext],
            case the (embedding_fn eng) qtext of Inl e \<Rightarrow> Inl e | Inr v \<Rightarrow> Inr (Some v))
      else ([], Inr dense_vector))"

text \<open>Line 216: \<open>self._build_filter(filter_dict) if filter_dict else None\<close>.\<close>

definition filter_step :: "pydict option \<Rightarrow> error + qfilter option" where
  "filter_step filter_dict =
     (if truthy filter_dict
      then (case build_filter (the filter_dict) of Inl e \<Rightarrow> Inl e | Inr f \<Rightarrow> Inr (Some f))
      else Inr None)"

text \<open>
  \<open>search\<close>. The two readings of the clock, \<open>t0\<close> at entry and \<open>t1\<close> before the response is
  built, are parameters. An exception leaves the function at the point where it is raised,
  with the requests sent so far.
\<close>

definition search ::
  "engine \<Rightarrow> string \<Rightarrow> real list option \<Rightarrow> string option \<Rightarrow> pydict option \<Rightarrow> int
     \<Rightarrow> real \<Rightarrow> real \<Rightarrow> bool \<Rightarrow> real \<Rightarrow> real \<Rightarrow> call list \<times> (error + hybrid_search_response)"
  where
  "search eng qtext dense_vector preset filter_dict limit dense_weight sparse_weight
       with_payload t0 t1 =
     (case apply_preset preset filter_dict limit dense_weight sparse_weight of
        (dense_weight, sparse_weight, filter_dict, limit) \<Rightarrow>
     (case dense_step eng qtext dense_vector of
        (calls0, Inl e) \<Rightarrow> (calls0, Inl e)
      | (calls0, Inr dense_vector) \<Rightarrow>
     (case to_sparse_vector (tokenizer eng) qtext of
        (sparse_indices, sparse_values) \<Rightarrow>
     (case filter_step filter_dict of
        Inl e \<Rightarrow> (calls0, Inl e)
      | Inr qdrant_filter \<Rightarrow>
     (case hybrid_search_with_fusion eng dense_vector sparse_indices sparse_values
             dense_weight sparse_weight qdrant_filter limit with_payload of
        (calls1, Inl e) \<Rightarrow> (calls0 @ calls1, Inl e)
      | (calls1, Inr rs) \<Rightarrow>
          (calls0 @ calls1,
           Inr \<lparr>results = rs, total_found = length rs, query = qtext,
                search_time_ms = (t1 - t0) * 1000,
                config_used = \<lparr>cu_dense_weight = dense_weight, cu_sparse_weight = sparse_weight,
                                cu_preset = preset, cu_limit = limit\<rparr>\<rparr>))))))"

section \<open>A small index for concrete runs\<close>

text \<open>
  A stub index with two points. Its fused request answers with rank-based scores, its
  single-vector search with the similarity scores, its listing with the bare records; each
  honours the limit of the request.
\<close>

definition demo_payload :: pydict where
  "demo_payload = [(''name'', PStr ''Character'')]"

definition demo_client :: client where
  "demo_client =
     \<lparr>query_points = (\<lambda>pq fu limit wp. Inr (take (nat limit)
        [\<lparr>sp_id = IdInt 1, sp_score = 1 / 2, sp_payload = Some demo_payload\<rparr>,
         \<lparr>sp_id = IdInt 2, sp_score = 1 / 3, sp_payload = None\<rparr>])),
      client_search = (\<lambda>q flt limit wp. Inr (take (nat limit)
        [\<lparr>sp_id = IdInt 1, sp_score = 7 / 8, sp_payload = Some demo_payload\<rparr>,
         \<lparr>sp_id = IdInt 2, sp_score = 3 / 4, sp_payload = None\<rparr>])),
      scroll = (\<lambda>flt limit wp. Inr (take (nat limit)
        [\<lparr>rec_id = IdInt 1, rec_payload = Some demo_payload\<rparr>,
         \<lparr>rec_id = IdInt 2, rec_payload = None\<rparr>]))\<rparr>"

definition demo_engine :: engine where
  "demo_engine =
     \<lparr>eng_client = demo_client, embedding_fn = None, tokenizer = default_tokenizer,
      config = HybridSearchConfig\<rparr>"

text \<open>The same index without the fused request.\<close>

definition no_fusion_engine :: engine where
  "no_fusion_engine =
     demo_engine\<lparr>eng_client :=
       demo_client\<lparr>query_points := (\<lambda>pq fu limit wp. Inl (ClientError ''fusion''))\<rparr>\<rparr>"

text \<open>The same index with both vector requests failing; its listing still answers.\<close>

definition listing_only_engine :: engine where
  "listing_only_engine =
     demo_engine\<lparr>eng_client :=
       demo_client\<lparr>query_points := (\<lambda>pq fu limit wp. Inl (ClientError ''fusion'')),
                    client_search := (\<lambda>q flt limit wp. Inl (ClientError ''search''))\<rparr>\<rparr>"

text \<open>An index that cannot be reached: every request raises.\<close>

definition down_engine :: engine where
  "down_engine =
     demo_engine\<lparr>eng_client :=
       \<lparr>query_points = (\<lambda>pq fu limit wp. Inl (ClientError ''unreachable'')),
        client_search = (\<lambda>q flt limit wp. Inl (ClientError ''unreachable'')),
        scroll = (\<lambda>flt limit wp. Inl (ClientError ''unreachable''))\<rparr>\<rparr>"

text \<open>
  The contract of an index on limits: an answer to a request with limit \<open>l\<close> has at most
  \<open>l\<close> entries (none for a negative \<open>l\<close>).
\<close>

definition honours_limit :: "client \<Rightarrow> bool" where
  "honours_limit c \<longleftrightarrow>
     (\<forall>pq fu l wp ps. query_points c pq fu l wp = Inr ps \<longrightarrow> int (length ps) \<le> max 0 l) \<and>
     (\<forall>q f l wp ps. client_search c q f l wp = Inr ps \<longrightarrow> int (length ps) \<le> max 0 l) \<and>
     (\<forall>f l wp rs. scroll c f l wp = Inr rs \<longrightarrow> int (length rs) \<le> max 0 l)"

section \<open>Properties of the tokenizer\<close>

subsection \<open>Characters and case\<close>

lemma cp_char_of: "cp (char_of (n::nat)) = n mod 256"
  by (simp add: cp_def)

lemma char_of_cp: "char_of (cp c) = c"
  by (simp add: cp_def)

lemma cp_less_256: "cp c < 256"
  unfolding cp_def by (metis char_of_char of_char_of mod_less_divisor zero_less_numeral)

lemma lower_char_not_AZ: "\<not> is_AZ (lower_char c)"
  using cp_less_256 [of c]
  by (auto simp: lower_char_def has_lower_def is_AZ_def cp_char_of)

lemma camel_case_tail_id: "\<forall>c\<in>set cs. \<not> is_AZ c \<Longrightarrow> camel_case_tail cs = cs"
  by (induction cs) auto

lemma camel_case_sub_lower: "camel_case_sub (str_lower text) = str_lower text"
proof (cases "text")
  case Nil
  then show ?thesis by (simp add: camel_case_sub_def str_lower_def)
next
  case (Cons c cs)
  have "camel_case_tail (map lower_char cs) = map lower_char cs"
    by (rule camel_case_tail_id) (simp add: lower_char_not_AZ)
  with Cons show ?thesis by (simp add: camel_case_sub_def str_lower_def)
qed

lemma count_list_snoc: "count_list (xs @ [x]) t = count_list xs t + (if t = x then 1 else 0)"
  by (induction xs) auto

lemma tf_foldl:
  "foldl tf_incr [] xs = map (\<lambda>t. (t, count_list xs t)) (rev (remdups (rev xs)))"
proof (induction xs rule: rev_induct)
  case Nil
  then show ?case by simp
next
  case (snoc x xs)
  let ?ds = "rev (remdups (rev xs))"
  have set_ds: "set ?ds = set xs" by simp
  show ?case
  proof (cases "x \<in> set xs")
    case True
    then have "x \<in> fst ` set (map (\<lambda>t. (t, count_list xs t)) ?ds)"
      by (force simp: image_iff)
    then show ?thesis using True snoc
      by (simp add: tf_incr_def count_list_snoc comp_def)
  next
    case False
    then have nin: "x \<notin> fst ` set (map (\<lambda>t. (t, count_list xs t)) ?ds)"
      by (force simp: image_iff)
    have "map (\<lambda>t. (t, count_list (xs @ [x]) t)) ?ds = map (\<lambda>t. (t, count_list xs t)) ?ds"
      using False by (intro map_cong) (auto simp: count_list_snoc)
    moreover have "count_list xs x = 0" using False by (simp add: count_list_0_iff)
    ultimately show ?thesis using False snoc nin
      by (simp add: tf_incr_def count_list_snoc)
  qed
qed

lemma hex_val_range: "0 \<le> hex_val c \<and> hex_val c < 16"
  by (auto simp: hex_val_def)

lemma int_base16_bound: "0 \<le> int_base16 s \<and> int_base16 s < 16 ^ length s"
proof (induction s rule: rev_induct)
  case Nil
  then show ?case by (simp add: int_base16_def)
next
  case (snoc c s)
  have "int_base16 (s @ [c]) = 16 * int_base16 s + hex_val c"
    by (simp add: int_base16_def)
  then show ?case using snoc hex_val_range [of c] by auto
qed

lemma token_hash_range: "0 \<le> token_hash t \<and> token_hash t < 2 ^ 32"
proof -
  let ?s = "take 8 (hexdigest (md5_digest (encode t)))"
  have "length ?s \<le> 8" by simp
  then have "(16::int) ^ length ?s \<le> 16 ^ 8" by (intro power_increasing) auto
  then show ?thesis using int_base16_bound [of ?s] by (simp add: token_hash_def)
qed

lemma hexdigest_digits: "set (hexdigest bs) \<subseteq> set ''0123456789abcdef''"
proof -
  have "hex_digit n \<in> set ''0123456789abcdef''" for n
    unfolding hex_digit_def by (rule nth_mem) simp
  then show ?thesis by (auto simp: hexdigest_def)
qed

lemma length_md5_digest: "length (md5_digest m) = 16"
  by (simp add: md5_digest_def Let_def le_bytes32_def split: prod.splits)

lemma length_hexdigest: "length (hexdigest bs) = 2 * length bs"
  by (induction bs) (auto simp: hexdigest_def)

lemma boost_of_cases:
  "(t \<notin> fst ` set boost_tokens \<longrightarrow> boost_of t = 1) \<and>
   (t \<in> fst ` set boost_tokens \<longrightarrow> boost_of t \<in> {3 / 2, 2, 5 / 2})"
  by (auto simp: boost_of_def boost_tokens_def)

subsection \<open>Evaluations\<close>

lemma tokenize_NetworkBehaviour:
  "tokenize ''NetworkBehaviour'' = [''networkbehaviour'']"
  by code_simp

lemma token_hash_networkbehaviour: "token_hash ''networkbehaviour'' = 845435382"
  by code_simp

lemma token_hash_spawn: "token_hash ''spawn'' = 3767695612"
  by code_simp

lemma token_hash_rpc: "token_hash ''rpc'' = 3658461868"
  by code_simp

lemma token_hash_a_sharp_s: "token_hash [CHR ''a'', CHR 0xDF] = 3311057413"
  by code_simp

lemma token_hash_ass: "token_hash ''ass'' = 2521658087"
  by code_simp

lemma tokenize_spawn_rpc: "tokenize ''spawn Spawn rpc the'' = [''spawn'', ''spawn'', ''rpc'']"
  by code_simp

lemma tokenize_a_sharp_s: "tokenize [CHR ''a'', CHR 0xDF] = [[CHR ''a'', CHR 0xDF]]"
  by code_simp

lemma tokenize_ASS: "tokenize ''ASS'' = [''ass'']"
  by code_simp

lemma to_sparse_vector_tokens:
  "to_sparse_vector tk text =
     (map token_hash (rev (remdups (rev (tokenize text)))),
      map (\<lambda>t. term_weight tk t (count_list (tokenize text) t))
        (rev (remdups (rev (tokenize text)))))"
  by (simp add: to_sparse_vector_def Let_def tf_foldl comp_def)

lemma tokenize_empty: "tokenize [] = []"
  by code_simp

lemma tokenize_rpc: "tokenize ''rpc'' = [''rpc'']"
  by code_simp

lemma to_sparse_vector_empty: "to_sparse_vector tk [] = ([], [])"
  by (simp add: to_sparse_vector_def tokenize_empty)

lemma to_sparse_vector_rpc: "to_sparse_vector default_tokenizer ''rpc'' = ([3658461868], [4 / 5])"
  by (simp add: to_sparse_vector_def tokenize_rpc tf_incr_def token_hash_rpc term_weight_def
      boost_of_def boost_tokens_def default_tokenizer_def)

lemma str_int_1: "str_int 1 = ''1''"
  by code_simp

lemma str_int_2: "str_int 2 = ''2''"
  by code_simp

subsection \<open>Claims about the tokenizer\<close>

text \<open>
  Claim C1. \<open>tokenize\<close> lowercases the text and is meant to split compound identifiers at
  case boundaries, so that the vector of \<open>NetworkBehaviour\<close> has the tokens \<open>network\<close> and
  \<open>behaviour\<close>. The code lowercases first; the camel-case pattern then never matches
  (lemma \<open>camel_case_sub_lower\<close>), and \<open>NetworkBehaviour\<close> stays the single token
  \<open>networkbehaviour\<close>: the vector has one entry, the hash of that token with the boosted
  weight \<open>1 * 2.0 / (1 + 1.5)\<close>.
\<close>

theorem tokenize_NetworkBehaviour_unsplit:
  "tokenize ''NetworkBehaviour'' = [''networkbehaviour''] \<and>
   to_sparse_vector default_tokenizer ''NetworkBehaviour'' = ([845435382], [4 / 5])"
  by (simp add: to_sparse_vector_tokens tokenize_NetworkBehaviour token_hash_networkbehaviour
      term_weight_def boost_of_def boost_tokens_def default_tokenizer_def)

text \<open>
  Claim C6. For every text, the sparse vector has one entry per distinct token, in order of
  first occurrence. For a token \<open>t\<close> of frequency \<open>f\<close> the index is \<open>token_hash t\<close>, the first
  32 bits of the MD5 digest of the token, a number below \<open>2^32\<close>; the weight is
  \<open>(f * boost) / (f + k1)\<close>, with \<open>k1 = 1.5\<close> in the default tokenizer, \<open>boost = 1\<close> for a
  token outside the boost table and one of 1.5, 2 and 2.5 for a token of the table.
\<close>

theorem to_sparse_vector_entries:
  "to_sparse_vector tk text =
     (let tokens = tokenize text; ds = rev (remdups (rev tokens)) in
        (map token_hash ds,
         map (\<lambda>t. (of_nat (count_list tokens t) * boost_of t) /
                    (of_nat (count_list tokens t) + tk_k1 tk)) ds)) \<and>
   0 \<le> token_hash t \<and> token_hash t < 2 ^ 32 \<and>
   tk_k1 default_tokenizer = 3 / 2 \<and>
   (t \<notin> fst ` set boost_tokens \<longrightarrow> boost_of t = 1) \<and>
   (t \<in> fst ` set boost_tokens \<longrightarrow> boost_of t \<in> {3 / 2, 2, 5 / 2})"
  using token_hash_range [of t] boost_of_cases [of t]
  by (simp add: to_sparse_vector_tokens Let_def term_weight_def default_tokenizer_def)

text \<open>
  Claim C6 at the text \<open>spawn Spawn rpc the\<close>: \<open>spawn\<close> occurs twice and has boost 1.5,
  \<open>rpc\<close> occurs once and has boost 2, the stop word is dropped.
\<close>

theorem to_sparse_vector_entries_witness:
  "to_sparse_vector default_tokenizer ''spawn Spawn rpc the'' =
     ([3767695612, 3658461868], [6 / 7, 4 / 5]) \<and>
   ''rpc'' \<in> fst ` set boost_tokens \<and> boost_of ''rpc'' \<in> {3 / 2, 2, 5 / 2} \<and>
   ''zz'' \<notin> fst ` set boost_tokens \<and> boost_of ''zz'' = 1"
proof -
  have a: "''rpc'' \<in> fst ` set boost_tokens" by (simp add: boost_tokens_def)
  have b: "''zz'' \<notin> fst ` set boost_tokens" by (simp add: boost_tokens_def)
  have c: "boost_of ''spawn'' = 3 / 2" "boost_of ''rpc'' = 2"
    by (simp_all add: boost_of_def boost_tokens_def)
  show ?thesis
    using a b to_sparse_vector_entries [of default_tokenizer "''spawn Spawn rpc the''" "''rpc''"]
      to_sparse_vector_entries [of default_tokenizer "''spawn Spawn rpc the''" "''zz''"]
    by (simp add: tokenize_spawn_rpc token_hash_spawn token_hash_rpc c Let_def
        default_tokenizer_def)
qed

subsection \<open>Upper-case texts\<close>

lemma lower_upper_cp:
  assumes "cp c \<notin> {181, 223}"
  shows "\<exists>n. upper_cp c = [n] \<and> lower_cp n = Some (cp (lower_char c))"
proof (cases "cp c = 255")
  case True
  then have "\<not> has_lower c" by (simp add: has_lower_def is_AZ_def)
  with True show ?thesis by (simp add: upper_cp_def lower_cp_def lower_char_def)
next
  case n255: False
  show ?thesis
  proof (cases "has_upper c")
    case True
    then have 1: "upper_cp c = [cp c - 32]"
      using assms n255 by (simp add: upper_cp_def)
    have 2: "cp (char_of (cp c - 32)) = cp c - 32"
      using cp_less_256 [of c] by (simp add: cp_char_of)
    have 3: "has_lower (char_of (cp c - 32))"
      using True unfolding has_lower_def is_AZ_def 2 has_upper_def by auto
    have 4: "\<not> has_lower c"
      using True unfolding has_lower_def is_AZ_def has_upper_def by auto
    have 5: "cp c - 32 + 32 = cp c"
      using True unfolding has_upper_def by auto
    have 6: "cp c - 32 < 256"
      using cp_less_256 [of c] by simp
    show ?thesis
      using 1 3 4 6 by (simp add: lower_cp_def lower_char_def 2 5 char_of_cp)
  next
    case False
    then show ?thesis
      using assms n255 cp_less_256 [of c]
      by (simp add: upper_cp_def lower_cp_def char_of_cp)
  qed
qed

lemma lower_cps_upper:
  "\<forall>c\<in>set s. cp c \<notin> {181, 223} \<Longrightarrow> lower_cps (str_upper s) = Some (map cp (str_lower s))"
proof (induction s)
  case Nil
  then show ?case by (simp add: str_upper_def str_lower_def)
next
  case (Cons c cs)
  then have ih: "lower_cps (str_upper cs) = Some (map cp (str_lower cs))" by simp
  from Cons.prems obtain n where n: "upper_cp c = [n]" "lower_cp n = Some (cp (lower_char c))"
    using lower_upper_cp [of c] by auto
  show ?case using ih n by (simp add: str_upper_def str_lower_def)
qed

lemma narrow_map_cp: "narrow (map cp t) = Some t"
  using cp_less_256 by (simp add: narrow_def list_all_iff char_of_cp comp_def)

lemma tokenize_as_lowered: "tokenize text = tokenize_lowered (str_lower text)"
  by (simp add: tokenize_def tokenize_lowered_def)

lemma to_sparse_vector_as_tokens: "to_sparse_vector tk text = vector_of_tokens tk (tokenize text)"
  by (simp add: to_sparse_vector_def vector_of_tokens_def)

lemma tokenize_cps_ASS: "tokenize_cps [65, 83, 83] = Some [''ass'']"
  by code_simp

lemma str_upper_a_sharp_s: "str_upper [CHR ''a'', CHR 0xDF] = [65, 83, 83]"
  by code_simp


text \<open>
  Claim C9. The claim is that \<open>vectorize(s)\<close> and \<open>vectorize(s.upper())\<close> have the same term
  indices for every string \<open>s\<close>. Upper-casing is not always undone by lower-casing: U+00DF
  (sharp s) becomes \<open>SS\<close>, so the text \<open>a\<close> followed by U+00DF has the single token of
  these two letters, its upper-case form \<open>ASS\<close> has the token \<open>ass\<close>, and the two indices
  differ.
\<close>

theorem upper_changes_indices:
  "str_upper [CHR ''a'', CHR 0xDF] = [65, 83, 83] \<and>
   to_sparse_vector_cps default_tokenizer [65, 83, 83] = Some ([2521658087], [2 / 5]) \<and>
   to_sparse_vector default_tokenizer [CHR ''a'', CHR 0xDF] = ([3311057413], [2 / 5])"
  by (simp add: str_upper_a_sharp_s to_sparse_vector_cps_def tokenize_cps_ASS
      vector_of_tokens_def tf_incr_def to_sparse_vector_tokens tokenize_a_sharp_s
      token_hash_a_sharp_s token_hash_ass term_weight_def boost_of_def boost_tokens_def
      default_tokenizer_def)


text \<open>
  Claim C9, amended. For every string of code points up to U+00FF that has neither U+00B5
  nor U+00DF (every ASCII string is such a string), the upper-case form \<open>s.upper()\<close> has the
  same sparse vector as \<open>s\<close>, indices and weights alike. U+00FF is covered: its upper-case
  form U+0178 lower-cases back to it.
\<close>

theorem upper_same_vector:
  assumes "\<forall>c\<in>set s. cp c \<notin> {181, 223}"
  shows "to_sparse_vector_cps tk (str_upper s) = Some (to_sparse_vector tk s)"
proof -
  have "tokenize_cps (str_upper s) = Some (tokenize_lowered (str_lower s))"
    using lower_cps_upper [OF assms] by (simp add: tokenize_cps_def narrow_map_cp)
  then show ?thesis
    by (simp add: to_sparse_vector_cps_def to_sparse_vector_as_tokens tokenize_as_lowered)
qed


text \<open>Claim C9, amended, at the text \<open>Rpc\<close>, a space and U+00FF twice.\<close>

theorem upper_same_vector_witness:
  "list_all (\<lambda>c. cp c \<notin> {181, 223}) [CHR ''R'', CHR ''p'', CHR ''c'', CHR '' '', CHR 0xFF, CHR 0xFF] \<and>
   str_upper [CHR ''R'', CHR ''p'', CHR ''c'', CHR '' '', CHR 0xFF, CHR 0xFF] =
     [82, 80, 67, 32, 376, 376] \<and>
   to_sparse_vector_cps default_tokenizer [82, 80, 67, 32, 376, 376] =
     Some (to_sparse_vector default_tokenizer
       [CHR ''R'', CHR ''p'', CHR ''c'', CHR '' '', CHR 0xFF, CHR 0xFF])"
proof -
  let ?s = "[CHR ''R'', CHR ''p'', CHR ''c'', CHR '' '', CHR 0xFF, CHR 0xFF]"
  have h: "\<forall>c\<in>set ?s. cp c \<notin> {181, 223}" by code_simp
  have e: "str_upper ?s = [82, 80, 67, 32, 376, 376]" by code_simp
  from upper_same_vector [OF h, of default_tokenizer] e h show ?thesis
    unfolding list_all_iff by simp
qed

section \<open>Properties of the search engine\<close>

subsection \<open>Evaluations on the small index\<close>

lemma apply_preset_none: "apply_preset None fd limit dw sw = (dw, sw, fd, limit)"
  by (simp add: apply_preset_def nonempty_str_def)

lemma demo_engine_simps:
  "eng_client demo_engine = demo_client" "embedding_fn demo_engine = None"
  "tokenizer demo_engine = default_tokenizer" "config demo_engine = HybridSearchConfig"
  "eng_client no_fusion_engine =
     demo_client\<lparr>query_points := (\<lambda>pq fu limit wp. Inl (ClientError ''fusion''))\<rparr>"
  "embedding_fn no_fusion_engine = None"
  "tokenizer no_fusion_engine = default_tokenizer" "config no_fusion_engine = HybridSearchConfig"
  "eng_client listing_only_engine =
     demo_client\<lparr>query_points := (\<lambda>pq fu limit wp. Inl (ClientError ''fusion'')),
                  client_search := (\<lambda>q flt limit wp. Inl (ClientError ''search''))\<rparr>"
  "embedding_fn listing_only_engine = None"
  "tokenizer listing_only_engine = default_tokenizer"
  "config listing_only_engine = HybridSearchConfig"
  "eng_client down_engine =
     \<lparr>query_points = (\<lambda>pq fu limit wp. Inl (ClientError ''unreachable'')),
      client_search = (\<lambda>q flt limit wp. Inl (ClientError ''unreachable'')),
      scroll = (\<lambda>flt limit wp. Inl (ClientError ''unreachable''))\<rparr>"
  "embedding_fn down_engine = None"
  "tokenizer down_engine = default_tokenizer" "config down_engine = HybridSearchConfig"
  by (simp_all add: demo_engine_def no_fusion_engine_def listing_only_engine_def
      down_engine_def)

lemma build_filter_content_type:
  "build_filter [(''content_type'', PStr ''code'')] =
     Inr \<lparr>must = Some [FieldCondition (PStr ''content_type'') (MatchValue (PStr ''code''))],
          should = None, must_not = None\<rparr>"
  by (simp add: build_filter_def none_if_empty_def)

lemma build_filter_must_5: "build_filter [(''must'', PInt 5)] = Inl TypeError"
  by (simp add: build_filter_def extend_conditions_def)

lemma build_filter_list_value:
  "build_filter [(''tags'', PList [PStr ''a'', PStr ''b''])] = Inl ValidationError"
  by (simp add: build_filter_def)

lemma build_filter_clauses:
  "build_filter
     [(''must'', PList
        [PDict [(''key'', PStr ''is_network''), (''match'', PDict [(''value'', PBool True)])],
         PDict [(''key'', PStr ''name''), (''match'', PDict [(''text'', PStr ''Net'')])]]),
      (''content_type'', PStr ''code''),
      (''must_not'', PList
        [PDict [(''key'', PStr ''tags''),
                (''match'', PDict [(''any'', PList [PStr ''a'', PStr ''b''])])]])] =
   Inr \<lparr>must = Some
          [FieldCondition (PStr ''is_network'') (MatchValue (PBool True)),
           FieldCondition (PStr ''name'') (MatchText (PStr ''Net'')),
           FieldCondition (PStr ''content_type'') (MatchValue (PStr ''code''))],
        should = None,
        must_not = Some
          [FieldCondition (PStr ''tags'') (MatchAny (PList [PStr ''a'', PStr ''b'']))]\<rparr>"
  by (simp add: build_filter_def none_if_empty_def extend_conditions_def dict_get_def
      match_of_def)

lemma build_filter_gamecreator:
  "build_filter (the (pc_filter gamecreator_search)) =
   Inr \<lparr>must = None,
        should = Some
          [FieldCondition (PStr ''assembly_category'') (MatchValue (PStr ''gamecreator_core'')),
           FieldCondition (PStr ''assembly_category'') (MatchValue (PStr ''gamecreator_module'')),
           FieldCondition (PStr ''keywords'')
             (MatchAny (PList [PStr ''gamecreator'', PStr ''instruction'', PStr ''condition'']))],
        must_not = None\<rparr>"
  by (simp add: gamecreator_search_def build_filter_def none_if_empty_def extend_conditions_def
      dict_get_def match_of_def)

lemma honours_limit_demo: "honours_limit demo_client"
  by (auto simp: honours_limit_def demo_client_def)

subsection \<open>The shape of a search\<close>

lemma search_steps:
  assumes "apply_preset preset fd0 limit0 dw0 sw0 = (dw, sw, fd, limit)"
    and "dense_step eng q dv0 = (c0, Inr dv)"
    and "to_sparse_vector (tokenizer eng) q = (idx, vals)"
    and "filter_step fd = Inr flt"
    and "hybrid_search_with_fusion eng dv idx vals dw sw flt limit wp = (c1, Inr rs)"
  shows "search eng q dv0 preset fd0 limit0 dw0 sw0 wp t0 t1 =
     (c0 @ c1,
      Inr \<lparr>results = rs, total_found = length rs, query = q,
        search_time_ms = (t1 - t0) * 1000,
        config_used = \<lparr>cu_dense_weight = dw, cu_sparse_weight = sw, cu_preset = preset,
          cu_limit = limit\<rparr>\<rparr>)"
  using assms by (simp add: search_def)

lemma search_Inr_cases:
  assumes "snd (search eng q dv0 preset fd0 limit0 dw0 sw0 wp t0 t1) = Inr r"
  obtains dw sw fd limit c0 dv idx vals flt c1 rs where
    "apply_preset preset fd0 limit0 dw0 sw0 = (dw, sw, fd, limit)"
    "dense_step eng q dv0 = (c0, Inr dv)"
    "to_sparse_vector (tokenizer eng) q = (idx, vals)"
    "filter_step fd = Inr flt"
    "hybrid_search_with_fusion eng dv idx vals dw sw flt limit wp = (c1, Inr rs)"
    "r = \<lparr>results = rs, total_found = length rs, query = q,
        search_time_ms = (t1 - t0) * 1000,
        config_used = \<lparr>cu_dense_weight = dw, cu_sparse_weight = sw, cu_preset = preset,
          cu_limit = limit\<rparr>\<rparr>"
  using assms
  by (auto simp: search_def split: prod.splits sum.splits)

lemma hybrid_length_le:
  assumes "honours_limit (eng_client eng)"
    and "hybrid_search_with_fusion eng dv idx vals dw sw flt limit wp = (c1, Inr rs)"
  shows "int (length rs) \<le> max 0 limit"
proof -
  let ?c = "eng_client eng"
  have q: "query_points ?c pq fu l w = Inr ps \<Longrightarrow> int (length ps) \<le> max 0 l" for pq fu l w ps
    using assms(1) unfolding honours_limit_def by blast
  have s: "client_search ?c qq f l w = Inr ps \<Longrightarrow> int (length ps) \<le> max 0 l" for qq f l w ps
    using assms(1) unfolding honours_limit_def by blast
  have r: "scroll ?c f l w = Inr recs \<Longrightarrow> int (length recs) \<le> max 0 l" for f l w recs
    using assms(1) unfolding honours_limit_def by blast
  show ?thesis
    using assms(2) q s r
    by (auto simp: hybrid_search_with_fusion_def fallback_scroll_search_def
        fallback_single_search_def Let_def split: if_splits sum.splits)
qed

text \<open>The stage with exactly one vector.\<close>

lemma single_prefetch:
  assumes "truthy dv \<noteq> (idx \<noteq> [])"
  shows "prefetch_queries eng dv idx vals flt =
     [if truthy dv
      then \<lparr>pf_query = DenseQuery (the dv), pf_using = ''dense'',
             pf_limit = dense_prefetch_limit (config eng), pf_filter = flt\<rparr>
      else \<lparr>pf_query = SparseVector idx vals, pf_using = ''sparse'',
             pf_limit = sparse_prefetch_limit (config eng), pf_filter = flt\<rparr>]"
  using assms by (auto simp: prefetch_queries_def)

lemma hybrid_single:
  assumes "truthy dv \<noteq> (idx \<noteq> [])"
  shows "hybrid_search_with_fusion eng dv idx vals dw sw flt limit wp =
     (let pq = prefetch_queries eng dv idx vals flt;
          nq = (if truthy dv then NamedVector ''dense'' (the dv)
                else NamedSparseVector ''sparse'' idx vals)
      in case query_points (eng_client eng) pq RRF limit wp of
           Inr points \<Rightarrow> ([QueryPointsCall pq RRF limit wp], Inr (map result_of_point points))
         | Inl e \<Rightarrow>
             ([QueryPointsCall pq RRF limit wp, SearchCall nq flt limit wp],
              case client_search (eng_client eng) nq flt limit wp of
                Inl e' \<Rightarrow> Inl e'
              | Inr points \<Rightarrow> Inr (map result_of_point points)))"
proof -
  have ne: "prefetch_queries eng dv idx vals flt \<noteq> []"
    using single_prefetch [OF assms] by simp
  show ?thesis
    using ne assms
    by (auto simp: hybrid_search_with_fusion_def fallback_single_search_def Let_def
        split: sum.splits)
qed

subsection \<open>Claims about the search engine\<close>

text \<open>
  Claim C2. Explicit parameters of the caller are to override those of the preset, field by
  field: preset \<open>code\<close> with \<open>dense_weight = 0.9\<close> resolves to \<open>dense_weight = 0.9\<close>. In the
  code the preset's \<open>dense_weight\<close>, \<open>sparse_weight\<close> and \<open>final_limit\<close> replace the
  caller's values; only the filter of the caller wins over the preset's. The search below
  reports \<open>dense_weight = 0.6\<close> for the caller's 0.9, and with preset \<open>keyword\<close> the limit
  30 for the caller's 5.
\<close>

theorem preset_overrides_explicit_parameters:
  "search demo_engine ''rpc'' None (Some ''code'') None 20 (9 / 10) (3 / 10) True 0 1 =
     ([QueryPointsCall
         [\<lparr>pf_query = SparseVector [3658461868] [4 / 5], pf_using = ''sparse'', pf_limit = 100,
           pf_filter = Some \<lparr>must = Some [FieldCondition (PStr ''content_type'')
             (MatchValue (PStr ''code''))], should = None, must_not = None\<rparr>\<rparr>]
         RRF 20 True],
      Inr \<lparr>results =
          [\<lparr>sr_id = ''1'', sr_score = 1 / 2, sr_payload = demo_payload, sr_vector_name = []\<rparr>,
           \<lparr>sr_id = ''2'', sr_score = 1 / 3, sr_payload = [], sr_vector_name = []\<rparr>],
        total_found = 2, query = ''rpc'', search_time_ms = 1000,
        config_used = \<lparr>cu_dense_weight = 6 / 10, cu_sparse_weight = 4 / 10,
          cu_preset = Some ''code'', cu_limit = 20\<rparr>\<rparr>) \<and>
   map_sum id (cu_limit \<circ> config_used)
     (snd (search demo_engine ''rpc'' None (Some ''keyword'') None 5 (7 / 10) (3 / 10) True 0 1)) =
     Inr 30"
  by (simp add: search_def apply_preset_def nonempty_str_def get_preset_config_def
      code_search_def keyword_search_def truthy_def dense_step_def demo_engine_simps
      to_sparse_vector_rpc filter_step_def build_filter_def none_if_empty_def
      hybrid_search_with_fusion_def prefetch_queries_def HybridSearchConfig_def
      demo_client_def result_of_point_def str_int_1 str_int_2 payload_or_empty_def)

text \<open>
  Claim C3. With one vector only, the search is to return that modality's own ranking, its
  scores kept, with no fusion step. The code sends the fused request whenever a vector is
  there: for the query \<open>rpc\<close> with no dense vector the one request is a fused request (RRF)
  over the sparse prefetch alone, and the result carries the scores of that answer (1/2 and
  1/3 on the small index), not those of the sparse search (7/8 and 3/4), which is never
  sent.
\<close>

theorem single_modality_is_fused:
  "search demo_engine ''rpc'' None None None 20 (7 / 10) (3 / 10) True 0 1 =
     ([QueryPointsCall
         [\<lparr>pf_query = SparseVector [3658461868] [4 / 5], pf_using = ''sparse'', pf_limit = 100,
           pf_filter = None\<rparr>] RRF 20 True],
      Inr \<lparr>results =
          [\<lparr>sr_id = ''1'', sr_score = 1 / 2, sr_payload = demo_payload, sr_vector_name = []\<rparr>,
           \<lparr>sr_id = ''2'', sr_score = 1 / 3, sr_payload = [], sr_vector_name = []\<rparr>],
        total_found = 2, query = ''rpc'', search_time_ms = 1000,
        config_used = \<lparr>cu_dense_weight = 7 / 10, cu_sparse_weight = 3 / 10,
          cu_preset = None, cu_limit = 20\<rparr>\<rparr>) \<and>
   map_sum id (map sp_score)
     (client_search demo_client (NamedSparseVector ''sparse'' [3658461868] [4 / 5]) None 20 True) =
     Inr [7 / 8, 3 / 4]"
  by (simp add: search_def apply_preset_none dense_step_def demo_engine_simps
      to_sparse_vector_rpc filter_step_def truthy_def
      hybrid_search_with_fusion_def prefetch_queries_def HybridSearchConfig_def
      demo_client_def result_of_point_def str_int_1 str_int_2 payload_or_empty_def)

text \<open>
  Claim C3, amended. Let the dense vector be there without error (given by the caller, or
  computed by the embedding function, or absent), and let exactly one of the two vectors be
  present. If the filter does not build, its error leaves \<open>search\<close> and no request goes to
  the index. Otherwise \<open>search\<close> sends one fused request (RRF) whose only prefetch is the
  query of the present modality, bounded by that modality's prefetch limit, with the limit
  that \<open>search\<close> resolved. When the index answers it, nothing else is sent and the results
  are that answer in its order, each point with the score the index gave it. When it fails,
  the direct search of the same modality is sent with the same filter and limit, and its
  outcome, answer or error, is the outcome of \<open>search\<close>.
\<close>

theorem single_modality_request:
  assumes "apply_preset preset fd0 limit0 dw0 sw0 = (dw, sw, fd, limit)"
    and "dense_step eng q dv0 = (c0, Inr dv)"
    and "to_sparse_vector (tokenizer eng) q = (idx, vals)"
    and "truthy dv \<noteq> (idx \<noteq> [])"
  shows "search eng q dv0 preset fd0 limit0 dw0 sw0 wp t0 t1 =
     (case filter_step fd of
        Inl e \<Rightarrow> (c0, Inl e)
      | Inr flt \<Rightarrow>
          (let pf = (if truthy dv
                     then \<lparr>pf_query = DenseQuery (the dv), pf_using = ''dense'',
                            pf_limit = dense_prefetch_limit (config eng), pf_filter = flt\<rparr>
                     else \<lparr>pf_query = SparseVector idx vals, pf_using = ''sparse'',
                            pf_limit = sparse_prefetch_limit (config eng), pf_filter = flt\<rparr>);
               nq = (if truthy dv then NamedVector ''dense'' (the dv)
                     else NamedSparseVector ''sparse'' idx vals);
               response = (\<lambda>points.
                 \<lparr>results = map result_of_point points, total_found = length points, query = q,
                  search_time_ms = (t1 - t0) * 1000,
                  config_used = \<lparr>cu_dense_weight = dw, cu_sparse_weight = sw,
                    cu_preset = preset, cu_limit = limit\<rparr>\<rparr>)
           in case query_points (eng_client eng) [pf] RRF limit wp of
                Inr points \<Rightarrow> (c0 @ [QueryPointsCall [pf] RRF limit wp], Inr (response points))
              | Inl e \<Rightarrow>
                  (c0 @ [QueryPointsCall [pf] RRF limit wp, SearchCall nq flt limit wp],
                   case client_search (eng_client eng) nq flt limit wp of
                     Inl e' \<Rightarrow> Inl e'
                   | Inr points \<Rightarrow> Inr (response points))))"
proof (cases "filter_step fd")
  case (Inl e)
  then show ?thesis using assms(1-3) by (simp add: search_def)
next
  case (Inr flt)
  show ?thesis
    using assms(1-3) Inr
    by (simp add: search_def hybrid_single [OF assms(4)] single_prefetch [OF assms(4)] Let_def
        split: sum.splits)
qed

text \<open>
  Claim C3, amended, on the small index: the query \<open>rpc\<close> with no dense vector under the
  preset \<open>gamecreator\<close>, whose filter has three \<open>should\<close> leaves.
\<close>

theorem single_modality_request_witness:
  "search demo_engine ''rpc'' None (Some ''gamecreator'') None 20 (6 / 10) (4 / 10) True 0 1 =
     ([QueryPointsCall
         [\<lparr>pf_query = SparseVector [3658461868] [4 / 5], pf_using = ''sparse'', pf_limit = 100,
           pf_filter = Some \<lparr>must = None,
             should = Some
               [FieldCondition (PStr ''assembly_category'')
                  (MatchValue (PStr ''gamecreator_core'')),
                FieldCondition (PStr ''assembly_category'')
                  (MatchValue (PStr ''gamecreator_module'')),
                FieldCondition (PStr ''keywords'')
                  (MatchAny (PList
                     [PStr ''gamecreator'', PStr ''instruction'', PStr ''condition'']))],
             must_not = None\<rparr>\<rparr>] RRF 20 True],
      Inr \<lparr>results =
          [\<lparr>sr_id = ''1'', sr_score = 1 / 2, sr_payload = demo_payload, sr_vector_name = []\<rparr>,
           \<lparr>sr_id = ''2'', sr_score = 1 / 3, sr_payload = [], sr_vector_name = []\<rparr>],
        total_found = 2, query = ''rpc'', search_time_ms = 1000,
        config_used = \<lparr>cu_dense_weight = 6 / 10, cu_sparse_weight = 4 / 10,
          cu_preset = Some ''gamecreator'', cu_limit = 20\<rparr>\<rparr>)"
proof -
  have a: "apply_preset (Some ''gamecreator'') None 20 (6 / 10) (4 / 10) =
      (6 / 10, 4 / 10, pc_filter gamecreator_search, 20)"
    by (simp add: apply_preset_def nonempty_str_def get_preset_config_def truthy_def
        gamecreator_search_def)
  have b: "dense_step demo_engine ''rpc'' None = ([], Inr None)"
    by (simp add: dense_step_def demo_engine_simps)
  have c: "to_sparse_vector (tokenizer demo_engine) ''rpc'' = ([3658461868], [4 / 5])"
    by (simp add: demo_engine_simps to_sparse_vector_rpc)
  have e: "truthy (None :: real list option) \<noteq> ([3658461868 :: int] \<noteq> [])"
    by (simp add: truthy_def)
  have f: "filter_step (pc_filter gamecreator_search) =
      map_sum id Some (build_filter (the (pc_filter gamecreator_search)))"
    by (simp add: filter_step_def truthy_def gamecreator_search_def split: sum.splits)
  show ?thesis
    using single_modality_request [OF a b c e, of True 0 1]
    by (simp add: f build_filter_gamecreator truthy_def HybridSearchConfig_def
        demo_engine_simps demo_client_def result_of_point_def str_int_1 str_int_2
        payload_or_empty_def)
qed

text \<open>
  Claim C4. A filter leaf with an unknown match kind is to be a configuration error. The
  code has a last branch for it: the leaf \<open>{"key": "is_network", "match": {"regex": "x"}}\<close>
  is built, with no error, as the condition \<open>is_network == True\<close>.
\<close>

theorem unknown_match_kind_not_rejected:
  "build_condition
     (PDict [(''key'', PStr ''is_network''), (''match'', PDict [(''regex'', PStr ''x'')])]) =
   Inr (FieldCondition (PStr ''is_network'') (MatchValue (PBool True)))"
  by (simp add: dict_get_def)

text \<open>
  Claim C4, amended. For every leaf whose match specification is a dict with none of the
  keys \<open>value\<close>, \<open>any\<close> and \<open>text\<close> (a leaf with no \<open>match\<close> entry has the empty dict): when
  the key of the leaf is a string, building the leaf raises nothing and gives the
  exact-value condition with the value \<open>True\<close> on that key; when the key is missing or is
  not a string, the leaf is refused by the check of \<open>FieldCondition\<close> on its key
  (\<open>ValidationError\<close>), not for its match kind.
\<close>

theorem unknown_match_kind_is_value_True:
  assumes "dict_get condition ''match'' (PDict []) = PDict m"
    and "''value'' \<notin> fst ` set m" and "''any'' \<notin> fst ` set m" and "''text'' \<notin> fst ` set m"
  shows "(\<forall>k. dict_get condition ''key'' PNone = PStr k \<longrightarrow>
            build_condition (PDict condition) =
              Inr (FieldCondition (PStr k) (MatchValue (PBool True)))) \<and>
         (\<not> is_PStr (dict_get condition ''key'' PNone) \<longrightarrow>
            build_condition (PDict condition) = Inl ValidationError)"
proof -
  have "build_condition (PDict condition) =
      FieldCondition_init (dict_get condition ''key'' PNone) (MatchValue (PBool True))"
    using assms by simp
  then show ?thesis
    by (cases "dict_get condition ''key'' PNone") simp_all
qed

text \<open>
  Claim C4, amended, at the leaves \<open>{"key": "name", "match": {"prefix": "Net"}}\<close> and
  \<open>{"match": {"prefix": "Net"}}\<close>.
\<close>

theorem unknown_match_kind_is_value_True_witness:
  "dict_get [(''key'', PStr ''name''), (''match'', PDict [(''prefix'', PStr ''Net'')])]
     ''match'' (PDict []) = PDict [(''prefix'', PStr ''Net'')] \<and>
   ''value'' \<notin> fst ` set [(''prefix'', PStr ''Net'')] \<and>
   ''any'' \<notin> fst ` set [(''prefix'', PStr ''Net'')] \<and>
   ''text'' \<notin> fst ` set [(''prefix'', PStr ''Net'')] \<and>
   build_condition
     (PDict [(''key'', PStr ''name''), (''match'', PDict [(''prefix'', PStr ''Net'')])]) =
   Inr (FieldCondition (PStr ''name'') (MatchValue (PBool True))) \<and>
   build_condition (PDict [(''match'', PDict [(''prefix'', PStr ''Net'')])]) =
   Inl ValidationError"
proof -
  let ?c = "[(''key'', PStr ''name''), (''match'', PDict [(''prefix'', PStr ''Net'')])]"
  let ?d = "[(''match'', PDict [(''prefix'', PStr ''Net'')])]"
  let ?m = "[(''prefix'', PStr ''Net'')]"
  have a: "dict_get ?c ''match'' (PDict []) = PDict ?m" by (simp add: dict_get_def)
  have a': "dict_get ?d ''match'' (PDict []) = PDict ?m" by (simp add: dict_get_def)
  have b: "''value'' \<notin> fst ` set ?m" "''any'' \<notin> fst ` set ?m" "''text'' \<notin> fst ` set ?m"
    by simp_all
  have k: "dict_get ?c ''key'' PNone = PStr ''name''" "dict_get ?d ''key'' PNone = PNone"
    by (simp_all add: dict_get_def)
  show ?thesis
    using a b k unknown_match_kind_is_value_True [OF a b]
      unknown_match_kind_is_value_True [OF a' b]
    by simp
qed

text \<open>
  Claim C5. With the empty text, no dense vector and a non-empty filter, \<open>search\<close> is to
  return the records that match the filter, each with score 1.0, and never an error. The
  code has no handler around the filter builder or the listing request. The filter
  \<open>{"must": 5}\<close> is not iterable: \<open>TypeError\<close> leaves \<open>search\<close> before any request. With
  the filter \<open>{"content_type": "code"}\<close> on an index that cannot be reached, the error of
  the listing request leaves \<open>search\<close>.
\<close>

theorem empty_text_search_can_raise:
  "search demo_engine [] None None (Some [(''must'', PInt 5)]) 20 (7 / 10) (3 / 10) True 0 1 =
     ([], Inl TypeError) \<and>
   search down_engine [] None None (Some [(''content_type'', PStr ''code'')]) 20 (7 / 10)
       (3 / 10) True 0 1 =
     ([ScrollCall
         (Some \<lparr>must = Some [FieldCondition (PStr ''content_type'') (MatchValue (PStr ''code''))],
                should = None, must_not = None\<rparr>) 20 True],
      Inl (ClientError ''unreachable''))"
  by (simp add: search_def apply_preset_none dense_step_def demo_engine_simps
      to_sparse_vector_empty filter_step_def truthy_def build_filter_must_5
      build_filter_content_type hybrid_search_with_fusion_def prefetch_queries_def
      fallback_scroll_search_def)

text \<open>
  Claim C5, amended. For the empty query text with no dense vector, no embedding function
  and a non-empty filter of the caller, the sparse vector is empty and no vector request is
  sent. If the filter does not build, its error leaves \<open>search\<close> before any request.
  Otherwise the one request is the listing (scroll) with the built filter and the limit
  that \<open>search\<close> resolved, which is the caller's limit when no preset is named. An error of
  that request leaves \<open>search\<close>. When the index answers, \<open>search\<close> returns the records of
  the answer in their order, each with score 1; on an index that honours the limit of a
  request they are no more than that limit.
\<close>

theorem empty_text_lists_by_filter:
  assumes "f \<noteq> []"
    and "embedding_fn eng = None"
    and "apply_preset preset (Some f) limit0 dw0 sw0 = (dw, sw, fd, limit)"
  shows "fd = Some f \<and> (\<not> nonempty_str preset \<longrightarrow> limit = limit0) \<and>
   search eng [] None preset (Some f) limit0 dw0 sw0 wp t0 t1 =
     (case build_filter f of
        Inl e \<Rightarrow> ([], Inl e)
      | Inr flt \<Rightarrow>
          ([ScrollCall (Some flt) limit wp],
           case scroll (eng_client eng) (Some flt) limit wp of
             Inl e \<Rightarrow> Inl e
           | Inr recs \<Rightarrow>
               Inr \<lparr>results = map result_of_record recs, total_found = length recs, query = [],
                 search_time_ms = (t1 - t0) * 1000,
                 config_used = \<lparr>cu_dense_weight = dw, cu_sparse_weight = sw,
                   cu_preset = preset, cu_limit = limit\<rparr>\<rparr>)) \<and>
   (\<forall>r. snd (search eng [] None preset (Some f) limit0 dw0 sw0 wp t0 t1) = Inr r \<longrightarrow>
      (\<forall>x \<in> set (results r). sr_score x = 1) \<and>
      (honours_limit (eng_client eng) \<longrightarrow> int (length (results r)) \<le> max 0 limit))"
proof -
  have fd: "fd = Some f" and lim: "\<not> nonempty_str preset \<longrightarrow> limit = limit0"
    using assms(1,3) by (auto simp: apply_preset_def truthy_def Let_def split: if_splits)
  have a: "dense_step eng [] None = ([], Inr None)"
    using assms(2) by (simp add: dense_step_def)
  have b: "filter_step fd =
      (case build_filter f of Inl e \<Rightarrow> Inl e | Inr flt \<Rightarrow> Inr (Some flt))"
    using fd assms(1) by (simp add: filter_step_def truthy_def)
  have c: "hybrid_search_with_fusion eng None [] [] dw sw flt limit wp =
      ([ScrollCall flt limit wp],
       case scroll (eng_client eng) flt limit wp of
         Inl e \<Rightarrow> Inl e | Inr recs \<Rightarrow> Inr (map result_of_record recs))" for flt
    by (simp add: hybrid_search_with_fusion_def prefetch_queries_def truthy_def
        fallback_scroll_search_def)
  have s: "search eng [] None preset (Some f) limit0 dw0 sw0 wp t0 t1 =
     (case build_filter f of
        Inl e \<Rightarrow> ([], Inl e)
      | Inr flt \<Rightarrow>
          ([ScrollCall (Some flt) limit wp],
           case scroll (eng_client eng) (Some flt) limit wp of
             Inl e \<Rightarrow> Inl e
           | Inr recs \<Rightarrow>
               Inr \<lparr>results = map result_of_record recs, total_found = length recs, query = [],
                 search_time_ms = (t1 - t0) * 1000,
                 config_used = \<lparr>cu_dense_weight = dw, cu_sparse_weight = sw,
                   cu_preset = preset, cu_limit = limit\<rparr>\<rparr>))"
    using assms(3)
    by (simp add: search_def a b c to_sparse_vector_empty split: sum.splits)
  have r: "(\<forall>x \<in> set (results r). sr_score x = 1) \<and>
      (honours_limit (eng_client eng) \<longrightarrow> int (length (results r)) \<le> max 0 limit)"
    if "snd (search eng [] None preset (Some f) limit0 dw0 sw0 wp t0 t1) = Inr r" for r
  proof -
    from that obtain flt recs where
      recs: "scroll (eng_client eng) (Some flt) limit wp = Inr recs"
      and rr: "results r = map result_of_record recs"
      unfolding s by (auto split: sum.splits)
    have "honours_limit (eng_client eng) \<Longrightarrow> int (length recs) \<le> max 0 limit"
      using recs unfolding honours_limit_def by blast
    then show ?thesis by (auto simp: rr result_of_record_def)
  qed
  from fd lim s r show ?thesis by blast
qed

text \<open>
  Claim C5, amended, on the small index, with limit 20 and a filter of two \<open>must\<close> leaves, a
  direct key and a \<open>must_not\<close> leaf.
\<close>

theorem empty_text_lists_by_filter_witness:
  "embedding_fn demo_engine = None \<and>
   honours_limit (eng_client demo_engine) \<and>
   search demo_engine [] None None
     (Some [(''must'', PList
              [PDict [(''key'', PStr ''is_network''), (''match'', PDict [(''value'', PBool True)])],
               PDict [(''key'', PStr ''name''), (''match'', PDict [(''text'', PStr ''Net'')])]]),
            (''content_type'', PStr ''code''),
            (''must_not'', PList
              [PDict [(''key'', PStr ''tags''),
                      (''match'', PDict [(''any'', PList [PStr ''a'', PStr ''b''])])]])])
     20 (7 / 10) (3 / 10) True 0 1 =
     ([ScrollCall
         (Some \<lparr>must = Some
                  [FieldCondition (PStr ''is_network'') (MatchValue (PBool True)),
                   FieldCondition (PStr ''name'') (MatchText (PStr ''Net'')),
                   FieldCondition (PStr ''content_type'') (MatchValue (PStr ''code''))],
                should = None,
                must_not = Some
                  [FieldCondition (PStr ''tags'') (MatchAny (PList [PStr ''a'', PStr ''b'']))]\<rparr>)
         20 True],
      Inr \<lparr>results =
          [\<lparr>sr_id = ''1'', sr_score = 1, sr_payload = demo_payload, sr_vector_name = []\<rparr>,
           \<lparr>sr_id = ''2'', sr_score = 1, sr_payload = [], sr_vector_name = []\<rparr>],
        total_found = 2, query = [], search_time_ms = 1000,
        config_used = \<lparr>cu_dense_weight = 7 / 10, cu_sparse_weight = 3 / 10,
          cu_preset = None, cu_limit = 20\<rparr>\<rparr>)"
proof -
  let ?f = "[(''must'', PList
              [PDict [(''key'', PStr ''is_network''), (''match'', PDict [(''value'', PBool True)])],
               PDict [(''key'', PStr ''name''), (''match'', PDict [(''text'', PStr ''Net'')])]]),
            (''content_type'', PStr ''code''),
            (''must_not'', PList
              [PDict [(''key'', PStr ''tags''),
                      (''match'', PDict [(''any'', PList [PStr ''a'', PStr ''b''])])]])]"
  have a: "?f \<noteq> []" by simp
  have b: "embedding_fn demo_engine = None" by (simp add: demo_engine_simps)
  have c: "apply_preset None (Some ?f) 20 (7 / 10) (3 / 10) = (7 / 10, 3 / 10, Some ?f, 20)"
    by (simp add: apply_preset_none)
  have h: "honours_limit (eng_client demo_engine)"
    by (simp add: demo_engine_simps honours_limit_demo)
  show ?thesis
    using b h empty_text_lists_by_filter [OF a b c, of True 0 1]
    by (simp add: build_filter_clauses demo_engine_simps demo_client_def result_of_record_def
        str_int_1 str_int_2 payload_or_empty_def)
qed




text \<open>
  Claim C8. A malformed query specification is to be rejected before any external call.
  The code checks nothing: the empty query with no filter, no preset and the limit \<open>-1\<close>
  goes to the index as a listing request with limit \<open>-1\<close>, and the answer of the index is
  the result.
\<close>

theorem negative_limit_reaches_index:
  "search demo_engine [] None None None (- 1) (7 / 10) (3 / 10) True 0 1 =
     ([ScrollCall None (- 1) True],
      Inr \<lparr>results = [], total_found = 0, query = [], search_time_ms = 1000,
        config_used = \<lparr>cu_dense_weight = 7 / 10, cu_sparse_weight = 3 / 10, cu_preset = None,
          cu_limit = - 1\<rparr>\<rparr>)"
  by (simp add: search_def apply_preset_none dense_step_def demo_engine_simps
      to_sparse_vector_empty filter_step_def truthy_def hybrid_search_with_fusion_def
      prefetch_queries_def fallback_scroll_search_def demo_client_def)

text \<open>
  Claim C8, amended. \<open>search\<close> does not validate the query specification. For the empty
  query with no filter, no preset, no dense vector and no embedding function, and for every
  limit, negative ones included, it sends the listing request with that limit, and its
  outcome is the outcome of that request: the error of the index, or the response built
  from its records.
\<close>

theorem malformed_query_not_validated:
  assumes "embedding_fn eng = None"
  shows "search eng [] None None None limit dw sw wp t0 t1 =
     ([ScrollCall None limit wp],
      case scroll (eng_client eng) None limit wp of
        Inl e \<Rightarrow> Inl e
      | Inr recs \<Rightarrow>
          Inr \<lparr>results = map result_of_record recs, total_found = length recs, query = [],
            search_time_ms = (t1 - t0) * 1000,
            config_used = \<lparr>cu_dense_weight = dw, cu_sparse_weight = sw, cu_preset = None,
              cu_limit = limit\<rparr>\<rparr>)"
  using assms
  by (simp add: search_def apply_preset_none dense_step_def to_sparse_vector_empty
      filter_step_def truthy_def hybrid_search_with_fusion_def prefetch_queries_def
      fallback_scroll_search_def split: sum.splits)

text \<open>Claim C8, amended, on the small index with the limit \<open>-5\<close>.\<close>

theorem malformed_query_not_validated_witness:
  "embedding_fn demo_engine = None \<and>
   search demo_engine [] None None None (- 5) 0 0 False 0 0 =
     ([ScrollCall None (- 5) False],
      Inr \<lparr>results = [], total_found = 0, query = [], search_time_ms = 0,
        config_used = \<lparr>cu_dense_weight = 0, cu_sparse_weight = 0, cu_preset = None,
          cu_limit = - 5\<rparr>\<rparr>)"
proof -
  have a: "embedding_fn demo_engine = None" by (simp add: demo_engine_simps)
  show ?thesis
    using a malformed_query_not_validated [OF a, of "- 5" 0 0 False 0 0]
    by (simp add: demo_engine_simps demo_client_def)
qed

text \<open>
  Claim C10. In every response that \<open>search\<close> returns, \<open>total_found\<close> is the length of the
  list of results: the number of results returned, not a count of the matching records of
  the index. On an index that honours the limit of a request it is at most the resolved
  limit.
\<close>

theorem total_found_is_length:
  assumes "snd (search eng q dv0 preset fd0 limit0 dw0 sw0 wp t0 t1) = Inr r"
  shows "total_found r = length (results r) \<and>
    (honours_limit (eng_client eng) \<longrightarrow> int (total_found r) \<le> max 0 (cu_limit (config_used r)))"
proof -
  from assms obtain dw sw fd limit c0 dv idx vals flt c1 rs where
    h: "hybrid_search_with_fusion eng dv idx vals dw sw flt limit wp = (c1, Inr rs)"
    and r: "r = \<lparr>results = rs, total_found = length rs, query = q,
        search_time_ms = (t1 - t0) * 1000,
        config_used = \<lparr>cu_dense_weight = dw, cu_sparse_weight = sw, cu_preset = preset,
          cu_limit = limit\<rparr>\<rparr>"
    by (rule search_Inr_cases)
  show ?thesis using r hybrid_length_le [OF _ h] by simp
qed

text \<open>
  Claim C10 on the small index: the query \<open>rpc\<close> with limit 1 returns one of the two points,
  and \<open>total_found\<close> is 1.
\<close>

theorem total_found_is_length_witness:
  "snd (search demo_engine ''rpc'' None None None 1 (7 / 10) (3 / 10) True 0 1) =
     Inr \<lparr>results =
          [\<lparr>sr_id = ''1'', sr_score = 1 / 2, sr_payload = demo_payload, sr_vector_name = []\<rparr>],
        total_found = 1, query = ''rpc'', search_time_ms = 1000,
        config_used = \<lparr>cu_dense_weight = 7 / 10, cu_sparse_weight = 3 / 10,
          cu_preset = None, cu_limit = 1\<rparr>\<rparr> \<and>
   honours_limit (eng_client demo_engine)"
proof -
  let ?r = "\<lparr>results =
          [\<lparr>sr_id = ''1'', sr_score = 1 / 2, sr_payload = demo_payload, sr_vector_name = []\<rparr>],
        total_found = 1, query = ''rpc'', search_time_ms = 1000,
        config_used = \<lparr>cu_dense_weight = 7 / 10, cu_sparse_weight = 3 / 10,
          cu_preset = None, cu_limit = 1\<rparr>\<rparr>"
  have a: "snd (search demo_engine ''rpc'' None None None 1 (7 / 10) (3 / 10) True 0 1) = Inr ?r"
    by (simp add: search_def apply_preset_none dense_step_def demo_engine_simps
      to_sparse_vector_rpc filter_step_def truthy_def
      hybrid_search_with_fusion_def prefetch_queries_def HybridSearchConfig_def
      demo_client_def result_of_point_def str_int_1 payload_or_empty_def)
  have b: "honours_limit (eng_client demo_engine)"
    by (simp add: demo_engine_simps honours_limit_demo)
  show ?thesis using a b total_found_is_length [OF a] by simp
qed

end
